theory Spec2Isabelle
  imports Complex_Main "HOL-Library.Word" "HOL-Library.Multiset"
begin

section \<open>Conventions of the embedding\<close>

text \<open>
  The theory embeds two feature methods of the repository:
  \<^item> \<^verbatim>\<open>GeodeticLengthThicknessFeature\<close> of \<^verbatim>\<open>src/nyx/features/geo_len_thickness.cpp\<close>;
  \<^item> \<^verbatim>\<open>NGTDM_features\<close> of \<^verbatim>\<open>src/nyx/ngtdm.cpp\<close>.

  Numbers are modelled as follows.
  \<^item> \<^verbatim>\<open>size_t\<close> is a 64-bit word and \<^verbatim>\<open>PixIntens\<close> a 32-bit word: their arithmetic wraps
    around and their division is the truncating unsigned division, as in C++.
  \<^item> \<^verbatim>\<open>int\<close> is the type \<open>int\<close>, and a C++ \<^verbatim>\<open>int\<close> has 32 bits. Signed overflow is
    undefined in C++: the product \<^verbatim>\<open>Ngp * (Ngp - 1)\<close> of \<^verbatim>\<open>calc_Contrast\<close> returns the fault
    \<open>SignedOverflow\<close> when it exceeds \<open>INT_MAX\<close>. The other \<^verbatim>\<open>int\<close> operations are
    increments of counters by one, differences of loop indices, and the product of the
    image height and width, whose types are declared outside the embedded files; they
    are taken as exact.
  \<^item> \<^verbatim>\<open>double\<close> is the type \<open>real\<close>: rounding is not modelled. A floating-point division
    by zero yields an infinity or a NaN in the program; a function of the model that
    performs one returns the fault \<open>NotFinite\<close> in place of a number.
  \<^item> An operation whose behaviour C++ leaves undefined (an integer division by zero, a read
    past the end of a vector, a conversion of an out-of-range \<^verbatim>\<open>double\<close> to an unsigned
    integer) returns a fault as well.
\<close>

datatype fault = IntDivByZero | OutOfRange | BadConversion | NotFinite | SignedOverflow

definition INT_MAX :: int where
  "INT_MAX = 2147483647"

type_synonym size_t = "64 word"
type_synonym PixIntens = "32 word"

text \<open>Division of two \<^verbatim>\<open>double\<close>s.\<close>

definition ddiv :: "real \<Rightarrow> real \<Rightarrow> fault + real" where
  "ddiv x y = (if y = 0 then Inl NotFinite else Inr (x / y))"

text \<open>
  Implicit conversion of a \<^verbatim>\<open>double\<close> to \<^verbatim>\<open>size_t\<close>: the fractional part is discarded
  (truncation towards zero); the behaviour is undefined when the truncated value does not
  fit the unsigned type.
\<close>

definition double_to_size_t :: "real \<Rightarrow> fault + size_t" where
  "double_to_size_t x =
     (let t = (if 0 \<le> x then \<lfloor>x\<rfloor> else \<lceil>x\<rceil>)
      in if 0 \<le> t \<and> t < 2 ^ 64 then Inr (word_of_int t) else Inl BadConversion)"

text \<open>A \<^verbatim>\<open>for\<close> loop over a fixed range whose body may fault: the first fault ends it.\<close>

fun for_each :: "('a \<Rightarrow> 's \<Rightarrow> fault + 's) \<Rightarrow> 'a list \<Rightarrow> 's \<Rightarrow> fault + 's" where
  "for_each body [] s = Inr s"
| "for_each body (x # xs) s =
     (case body x s of Inl e \<Rightarrow> Inl e | Inr s' \<Rightarrow> for_each body xs s')"


section \<open>Geodetic length and thickness\<close>

text \<open>
  The ROI record \<^verbatim>\<open>LR\<close> and the enumeration of feature identifiers are declared in headers
  outside the embedded files. The model keeps the members that \<^verbatim>\<open>calculate\<close> reads:
  \<^verbatim>\<open>aux_area\<close> (as the \<^verbatim>\<open>size_t\<close> value that the initialisation of \<^verbatim>\<open>roiArea\<close> obtains) and
  the table \<^verbatim>\<open>fvals\<close>, a vector of vectors of doubles indexed by feature identifier.
\<close>

datatype AvailableFeatures = AREA_PIXELS_COUNT | PERIMETER | GEODETIC_LENGTH | THICKNESS

record LR =
  aux_area :: size_t
  fvals :: "AvailableFeatures \<Rightarrow> real list"
  has_bad_data :: bool

record GeodeticLengthThicknessFeature =
  geodetic_length :: real
  thickness :: real

typedecl ImageLoader

text \<open>
  \<^verbatim>\<open>calculate\<close>, lines 10 to 26. Both locals are \<^verbatim>\<open>size_t\<close>, so
  \<^verbatim>\<open>roiPerimeter * roiPerimeter / 16\<close>, \<^verbatim>\<open>roiPerimeter / 4\<close> and \<^verbatim>\<open>roiPerimeter / 2\<close> are computed
  in unsigned 64-bit arithmetic and only their results are converted to \<^verbatim>\<open>double\<close>.
\<close>

definition calculate ::
  "LR \<Rightarrow> GeodeticLengthThicknessFeature \<Rightarrow> fault + GeodeticLengthThicknessFeature" where
  "calculate r glt =
     (case fvals r PERIMETER of
        [] \<Rightarrow> Inl OutOfRange
      | p # _ \<Rightarrow>
         (case double_to_size_t p of
            Inl e \<Rightarrow> Inl e
          | Inr roiPerimeter \<Rightarrow>
             (let roiArea = aux_area r;
                  SqRootTmp0 = real (unat (roiPerimeter * roiPerimeter div 16))
                                 - real (unat roiArea);
                  SqRootTmp = (if SqRootTmp0 < 0 then 0 else SqRootTmp0);
                  gl = real (unat (roiPerimeter div 4)) + sqrt SqRootTmp;
                  th = real (unat (roiPerimeter div 2)) - gl
              in Inr (glt\<lparr>geodetic_length := gl, thickness := th\<rparr>))))"

text \<open>\<^verbatim>\<open>osized_calculate\<close>, lines 28 to 31: the image loader is not used.\<close>

definition osized_calculate ::
  "LR \<Rightarrow> ImageLoader \<Rightarrow> GeodeticLengthThicknessFeature
     \<Rightarrow> fault + GeodeticLengthThicknessFeature" where
  "osized_calculate r loader glt = calculate r glt"

text \<open>
  The formula as the specification words it, over the reals, for an area \<open>A\<close> and a
  perimeter \<open>L\<close>: \<open>t = L\<^sup>2/16 - A\<close> clamped at 0, \<open>geodetic_length = L/4 + sqrt t\<close>,
  \<open>thickness = L/2 - geodetic_length\<close>.
\<close>

definition spec_radicand :: "real \<Rightarrow> real \<Rightarrow> real" where
  "spec_radicand A L = max 0 (L\<^sup>2 / 16 - A)"

definition spec_geodetic_length :: "real \<Rightarrow> real \<Rightarrow> real" where
  "spec_geodetic_length A L = L / 4 + sqrt (spec_radicand A L)"

definition spec_thickness :: "real \<Rightarrow> real \<Rightarrow> real" where
  "spec_thickness A L = L / 2 - spec_geodetic_length A L"

text \<open>A record with pixel area \<open>A\<close> and a single-element \<^verbatim>\<open>PERIMETER\<close> entry \<open>L\<close>.\<close>

definition roi :: "size_t \<Rightarrow> real \<Rightarrow> LR" where
  "roi A L =
     \<lparr>aux_area = A,
      fvals = (\<lambda>f. case f of AREA_PIXELS_COUNT \<Rightarrow> [real (unat A)] | PERIMETER \<Rightarrow> [L]
                            | _ \<Rightarrow> [0]),
      has_bad_data = False\<rparr>"


section \<open>Neighbouring gray tone difference matrix\<close>

subsection \<open>The pixel matrix\<close>

text \<open>
  Modelled from the spec: the classes \<^verbatim>\<open>ImageMatrix\<close> and \<^verbatim>\<open>pixData\<close> are declared in a header
  outside the embedded files. The specification describes the collaborator as exposing
  pixel access by position and a bounds predicate \<^verbatim>\<open>safe(row, col)\<close> "used to avoid
  out-of-range neighbor reads". The plane is a row-major vector of intensities with its
  own height and width; \<^verbatim>\<open>safe\<close> holds exactly for the positions inside the plane.
\<close>

record pixData =
  pd_height :: int
  pd_width :: int
  pd_cells :: "PixIntens list"

definition safe :: "pixData \<Rightarrow> int \<Rightarrow> int \<Rightarrow> bool" where
  "safe D row col \<longleftrightarrow> 0 \<le> row \<and> row < pd_height D \<and> 0 \<le> col \<and> col < pd_width D"

definition pixel :: "pixData \<Rightarrow> int \<Rightarrow> int \<Rightarrow> PixIntens" where
  "pixel D row col = pd_cells D ! nat (row * pd_width D + col)"

record ImageMatrix =
  height :: int
  width :: int
  ReadablePixels :: pixData

text \<open>A plane is well formed when its vector holds one intensity for each position.\<close>

definition wf_pixData :: "pixData \<Rightarrow> bool" where
  "wf_pixData D \<longleftrightarrow>
     0 \<le> pd_height D \<and> 0 \<le> pd_width D \<and>
     length (pd_cells D) = nat (pd_height D) * nat (pd_width D)"

subsection \<open>The feature object\<close>

text \<open>
  The members of \<^verbatim>\<open>NGTDM_features\<close> that \<^verbatim>\<open>ngtdm.cpp\<close> reads and writes. The class declaration
  is in a header outside the embedded files; the types are those of the uses in the source
  (\<^verbatim>\<open>Ng\<close>, \<^verbatim>\<open>Ngp\<close>, \<^verbatim>\<open>Nvp\<close> are compared with and converted from \<^verbatim>\<open>int\<close>, \<^verbatim>\<open>P\<close> and \<^verbatim>\<open>S\<close> hold
  doubles, \<^verbatim>\<open>N\<close> holds counters).
\<close>

record NGTDM_features =
  bad_roi_data :: bool
  Ng :: int
  Ngp :: int
  Nvp :: int
  P :: "real list"
  S :: "real list"
  N :: "int list"

definition BAD_ROI_FVAL :: real where
  "BAD_ROI_FVAL = 0.0"

subsection \<open>\<^verbatim>\<open>initialize\<close>: gathering the zones (lines 30 to 91)\<close>

text \<open>One of the eight guarded blocks: an existing neighbour adds its intensity to
  \<^verbatim>\<open>neigsI\<close> (a \<^verbatim>\<open>PixIntens\<close>, so the sum wraps) and increments \<^verbatim>\<open>nd\<close>.\<close>

definition add_neighbour :: "pixData \<Rightarrow> int \<times> int \<Rightarrow> PixIntens \<times> int \<Rightarrow> PixIntens \<times> int" where
  "add_neighbour D pos acc =
     (case (pos, acc) of ((r, c), (neigsI, nd)) \<Rightarrow>
        if safe D r c then (neigsI + pixel D r c, nd + 1) else (neigsI, nd))"

text \<open>The eight positions in the order of the source: north, north-east, east,
  south-east, south, south-west, west, north-west.\<close>

definition neighbour_positions :: "int \<Rightarrow> int \<Rightarrow> (int \<times> int) list" where
  "neighbour_positions row col =
     [(row - 1, col), (row - 1, col + 1), (row, col + 1), (row + 1, col + 1),
      (row + 1, col), (row + 1, col - 1), (row, col - 1), (row - 1, col - 1)]"

definition neighbourhood :: "pixData \<Rightarrow> int \<Rightarrow> int \<Rightarrow> PixIntens \<times> int" where
  "neighbourhood D row col = fold (add_neighbour D) (neighbour_positions row col) (0, 0)"

text \<open>
  The body of the two nested loops. \<^verbatim>\<open>neigsI /= nd\<close> divides an \<^verbatim>\<open>unsigned int\<close> by an
  \<^verbatim>\<open>int\<close>: the divisor is converted to unsigned and the quotient is the truncated one; with
  \<^verbatim>\<open>nd == 0\<close> the behaviour is undefined. \<open>Z\<close> is the vector of pairs, \<open>U\<close> the set of
  intensities seen, kept as a list without repetitions.
\<close>

type_synonym AveNeighborhoodInte = "PixIntens \<times> real"

definition scan_pixel ::
  "pixData \<Rightarrow> int \<Rightarrow> int \<Rightarrow> AveNeighborhoodInte list \<times> PixIntens list
     \<Rightarrow> fault + (AveNeighborhoodInte list \<times> PixIntens list)" where
  "scan_pixel D row col ZU =
     (case ZU of (Z, U) \<Rightarrow>
        let px = pixel D row col in
        if px = 0 then Inr (Z, U)
        else (case neighbourhood D row col of (neigsI, nd) \<Rightarrow>
                if nd = 0 then Inl IntDivByZero
                else Inr (Z @ [(px, real (unat (neigsI div word_of_int nd)))],
                          List.insert px U)))"

definition gather_zones ::
  "pixData \<Rightarrow> fault + (AveNeighborhoodInte list \<times> PixIntens list)" where
  "gather_zones D =
     for_each (\<lambda>row. for_each (\<lambda>col. scan_pixel D (int row) (int col))
                               [0..<nat (pd_width D)])
              [0..<nat (pd_height D)] ([], [])"

subsection \<open>\<^verbatim>\<open>initialize\<close>: filling the arrays (lines 93 to 129)\<close>

text \<open>\<^verbatim>\<open>std::vector::resize(n, v)\<close>.\<close>

definition resize :: "nat \<Rightarrow> 'a \<Rightarrow> 'a list \<Rightarrow> 'a list" where
  "resize n v xs = take n xs @ replicate (n - length xs) v"

text \<open>\<^verbatim>\<open>std::find(I.begin(), I.end(), x) - I.begin()\<close>.\<close>

fun find_index :: "'a \<Rightarrow> 'a list \<Rightarrow> nat" where
  "find_index x [] = 0"
| "find_index x (y # ys) = (if y = x then 0 else Suc (find_index x ys))"

text \<open>The body of the loop over \<open>Z\<close>, lines 108 to 124.\<close>

definition count_zone ::
  "PixIntens list \<Rightarrow> AveNeighborhoodInte \<Rightarrow> NGTDM_features \<Rightarrow> NGTDM_features" where
  "count_zone I z st =
     (let row = find_index (fst z) I;
          px = fst z;
          aveNeigI = snd z;
          st1 = st\<lparr>N := (N st)[row := N st ! row + 1]\<rparr>;
          st2 = st1\<lparr>S := (S st1)[row := S st1 ! row + \<bar>real (unat px) - aveNeigI\<bar>]\<rparr>
      in if aveNeigI > 0 then st2\<lparr>Nvp := Nvp st2 + 1\<rparr> else st2)"

text \<open>The loop of lines 127 and 128. The divisor is the product of two integers,
  converted to \<^verbatim>\<open>double\<close>.\<close>

definition fill_P :: "ImageMatrix \<Rightarrow> NGTDM_features \<Rightarrow> fault + NGTDM_features" where
  "fill_P im st =
     for_each (\<lambda>i st'. case ddiv (real_of_int (Ng st')) (real_of_int (height im * width im)) of
                          Inl e \<Rightarrow> Inl e
                        | Inr q \<Rightarrow> Inr (st'\<lparr>P := (P st')[i := q]\<rparr>))
              [0..<nat (Ng st)] st"

definition initialize ::
  "int \<Rightarrow> int \<Rightarrow> ImageMatrix \<Rightarrow> NGTDM_features \<Rightarrow> fault + NGTDM_features" where
  "initialize minI maxI im st =
     (if minI = maxI then Inr (st\<lparr>bad_roi_data := True\<rparr>)
      else (case gather_zones (ReadablePixels im) of
              Inl e \<Rightarrow> Inl e
            | Inr (Z, U) \<Rightarrow>
               (let ng = int (length U);
                    st1 = st\<lparr>Ng := ng, Ngp := ng\<rparr>;
                    st2 = st1\<lparr>P := resize (nat ng) 0 (P st1),
                              S := resize (nat ng) 0 (S st1),
                              N := resize (nat ng) 0 (N st1)\<rparr>;
                    I = sort U;
                    st3 = fold (count_zone I) Z st2
                in fill_P im st3)))"

subsection \<open>The derived scalars (lines 131 to 245)\<close>

text \<open>Every loop of the five functions reads \<^verbatim>\<open>P[i]\<close> and \<^verbatim>\<open>S[i]\<close> for \<open>i < Ng\<close>; the reads
  are inside the vectors when both hold at least \<^verbatim>\<open>Ng\<close> elements.\<close>

definition arrays_cover :: "NGTDM_features \<Rightarrow> bool" where
  "arrays_cover st \<longleftrightarrow> nat (Ng st) \<le> length (P st) \<and> nat (Ng st) \<le> length (S st)"

definition calc_Coarseness :: "NGTDM_features \<Rightarrow> fault + real" where
  "calc_Coarseness st =
     (if bad_roi_data st then Inr BAD_ROI_FVAL
      else if \<not> arrays_cover st then Inl OutOfRange
      else (let sm = fold (\<lambda>i sm. sm + P st ! i * S st ! i) [0..<nat (Ng st)] 0.0
            in ddiv 1.0 sm))"

text \<open>
  In \<^verbatim>\<open>calc_Contrast\<close>, line 162 computes \<^verbatim>\<open>Ngp * (Ngp - 1)\<close> in \<^verbatim>\<open>int\<close> and stores it in
  the \<^verbatim>\<open>int\<close> \<^verbatim>\<open>Ngp_p2\<close>: a product above \<open>INT_MAX\<close> is a signed overflow. (With
  \<open>Ngp > 1\<close> the difference \<open>Ngp - 1\<close> and the product are positive, so no other overflow
  is possible on that line.)
\<close>

definition calc_Contrast :: "NGTDM_features \<Rightarrow> fault + real" where
  "calc_Contrast st =
     (if bad_roi_data st then Inr BAD_ROI_FVAL
      else if \<not> arrays_cover st then Inl OutOfRange
      else (let sm = fold (\<lambda>i. fold (\<lambda>j sm.
                          sm + P st ! i * P st ! j
                                  * real_of_int ((int i + 1) - (int j + 1))
                                  * real_of_int ((int i + 1) - (int j + 1)))
                        [0..<nat (Ng st)]) [0..<nat (Ng st)] 0.0
            in if Ngp st > 1 \<and> Ngp st * (Ngp st - 1) > INT_MAX then Inl SignedOverflow
               else (let Ngp_p2 = (if Ngp st > 1 then Ngp st * (Ngp st - 1) else Ngp st)
                     in case ddiv sm (real_of_int Ngp_p2) of
                          Inl e \<Rightarrow> Inl e
                        | Inr term1 \<Rightarrow>
                           (let sm2 = fold (\<lambda>i sm. sm + S st ! i) [0..<nat (Ng st)] 0.0
                            in case ddiv sm2 (real_of_int (Ngp st)) of
                                 Inl e \<Rightarrow> Inl e
                               | Inr term2 \<Rightarrow> Inr (term1 * term2)))))"

definition calc_Busyness :: "NGTDM_features \<Rightarrow> fault + real" where
  "calc_Busyness st =
     (if bad_roi_data st then Inr BAD_ROI_FVAL
      else if Ngp st = 1 then Inr 0.0
      else if \<not> arrays_cover st then Inl OutOfRange
      else (let sum1 = fold (\<lambda>i sum1. sum1 + P st ! i * S st ! i) [0..<nat (Ng st)] 0.0;
                sum2 = fold (\<lambda>i. fold (\<lambda>j sum2.
                          sum2 + \<bar>P st ! i * real i - P st ! j * real j\<bar>)
                        [0..<nat (Ng st)]) [0..<nat (Ng st)] 0.0
            in ddiv sum1 sum2))"

definition calc_Complexity :: "NGTDM_features \<Rightarrow> fault + real" where
  "calc_Complexity st =
     (if bad_roi_data st then Inr BAD_ROI_FVAL
      else if \<not> arrays_cover st then Inl OutOfRange
      else (case for_each (\<lambda>i. for_each (\<lambda>j sm.
                     case ddiv (real_of_int \<bar>(int i + 1) - (int j + 1)\<bar>
                                  * (P st ! i * S st ! i + P st ! j * S st ! j))
                               (P st ! i + P st ! j) of
                       Inl e \<Rightarrow> Inl e
                     | Inr tmp \<Rightarrow> Inr (sm + tmp))
                   [0..<nat (Ng st)]) [0..<nat (Ng st)] 0.0 of
              Inl e \<Rightarrow> Inl e
            | Inr sm \<Rightarrow> ddiv sm (real_of_int (Nvp st))))"

definition calc_Strength :: "NGTDM_features \<Rightarrow> fault + real" where
  "calc_Strength st =
     (if bad_roi_data st then Inr BAD_ROI_FVAL
      else if \<not> arrays_cover st then Inl OutOfRange
      else (let sum1 = fold (\<lambda>i. fold (\<lambda>j sum1.
                          sum1 + (P st ! i + P st ! j)
                                   * real_of_int ((int i + 1) - (int j + 1))
                                   * real_of_int ((int i + 1) - (int j + 1)))
                        [0..<nat (Ng st)]) [0..<nat (Ng st)] 0.0;
                sum2 = fold (\<lambda>i sum2. sum2 + S st ! i) [0..<nat (Ng st)] 0.0
            in ddiv sum1 sum2))"

subsection \<open>What the scan visits and records\<close>

text \<open>The positions in the order of the two nested loops (row by row).\<close>

definition scan_positions :: "pixData \<Rightarrow> (int \<times> int) list" where
  "scan_positions D =
     concat (map (\<lambda>row. map (\<lambda>col. (int row, int col)) [0..<nat (pd_width D)])
                 [0..<nat (pd_height D)])"

definition nonblank :: "pixData \<Rightarrow> int \<times> int \<Rightarrow> bool" where
  "nonblank D p \<longleftrightarrow> pixel D (fst p) (snd p) \<noteq> 0"

text \<open>The neighbour positions that pass the test \<^verbatim>\<open>D.safe\<close>, in the order of the source.\<close>

definition in_bounds_neighbours :: "pixData \<Rightarrow> int \<Rightarrow> int \<Rightarrow> (int \<times> int) list" where
  "in_bounds_neighbours D row col =
     filter (\<lambda>p. safe D (fst p) (snd p)) (neighbour_positions row col)"

text \<open>The pair pushed for a non-blank pixel: its intensity and the unsigned quotient of
  the (wrapping) sum of its neighbours by their number, converted to \<^verbatim>\<open>double\<close>.\<close>

definition zone_of :: "pixData \<Rightarrow> int \<times> int \<Rightarrow> AveNeighborhoodInte" where
  "zone_of D p =
     (pixel D (fst p) (snd p),
      real (unat (sum_list (map (\<lambda>q. pixel D (fst q) (snd q))
                              (in_bounds_neighbours D (fst p) (snd p)))
                   div word_of_int (int (length (in_bounds_neighbours D (fst p) (snd p)))))))"

text \<open>The distinct non-zero intensities that the scan observes.\<close>

definition observed_intensities :: "pixData \<Rightarrow> PixIntens set" where
  "observed_intensities D =
     set (filter (\<lambda>v. v \<noteq> 0) (map (\<lambda>p. pixel D (fst p) (snd p)) (scan_positions D)))"

text \<open>
  The neighbourhood average as the specification words it: the in-bounds positions among
  the eight around \<open>(row, col)\<close>, and the mean of their intensities over the reals.
\<close>

definition eight_connected :: "int \<Rightarrow> int \<Rightarrow> (int \<times> int) list" where
  "eight_connected row col =
     [(r, c). r \<leftarrow> [row - 1, row, row + 1], c \<leftarrow> [col - 1, col, col + 1],
              (r, c) \<noteq> (row, col)]"

definition spec_neighbours :: "pixData \<Rightarrow> int \<Rightarrow> int \<Rightarrow> (int \<times> int) list" where
  "spec_neighbours D row col =
     filter (\<lambda>(r, c). 0 \<le> r \<and> r < pd_height D \<and> 0 \<le> c \<and> c < pd_width D)
            (eight_connected row col)"

definition spec_neighbourhood_average :: "pixData \<Rightarrow> int \<Rightarrow> int \<Rightarrow> real" where
  "spec_neighbourhood_average D row col =
     (\<Sum>p\<leftarrow>spec_neighbours D row col. real (unat (pixel D (fst p) (snd p))))
       / real (length (spec_neighbours D row col))"

subsection \<open>Sample inputs\<close>

text \<open>A fresh geodetic feature object, and a fresh texture object (all counters zero, all
  vectors empty).\<close>

definition glt0 :: GeodeticLengthThicknessFeature where
  "glt0 = \<lparr>geodetic_length = 0, thickness = 0\<rparr>"

definition ngtdm0 :: NGTDM_features where
  "ngtdm0 = \<lparr>bad_roi_data = False, Ng = 0, Ngp = 0, Nvp = 0, P = [], S = [], N = []\<rparr>"

text \<open>The 2 by 2 image with rows \<open>1 1\<close> and \<open>1 2\<close>, and the state that \<^verbatim>\<open>initialize\<close>
  leaves for it when started from the fresh object.\<close>

definition im22 :: ImageMatrix where
  "im22 = \<lparr>height = 2, width = 2,
            ReadablePixels = \<lparr>pd_height = 2, pd_width = 2, pd_cells = [1, 1, 1, 2]\<rparr>\<rparr>"

definition ngtdm22 :: NGTDM_features where
  "ngtdm22 = \<lparr>bad_roi_data = False, Ng = 2, Ngp = 2, Nvp = 4,
               P = [1 / 2, 1 / 2], S = [0, 1], N = [3, 1]\<rparr>"

text \<open>A state with a single gray level.\<close>

definition ngtdm_single :: NGTDM_features where
  "ngtdm_single = \<lparr>bad_roi_data = False, Ng = 1, Ngp = 1, Nvp = 3,
                    P = [1 / 4], S = [7], N = [3]\<rparr>"

text \<open>The 1 by 1 image whose only pixel has intensity 5.\<close>

definition im11 :: ImageMatrix where
  "im11 = \<lparr>height = 1, width = 1,
            ReadablePixels = \<lparr>pd_height = 1, pd_width = 1, pd_cells = [5]\<rparr>\<rparr>"


section \<open>Properties of the geodetic feature\<close>

lemma sqrt_175_bounds: "132278 / 10000 < sqrt 175" "sqrt 175 < 132298 / 10000"
  by (rule real_less_rsqrt, simp add: power2_eq_square)
     (rule real_less_lsqrt, simp_all add: power2_eq_square)

lemma within_tolerance:
  "132278 / 10000 < (s::real) \<Longrightarrow> s < 132298 / 10000 \<Longrightarrow>
   \<bar>(15 + s) - 28.2288\<bar> < 1 / 1000 \<and> \<bar>(30 - (15 + s)) - 1.7712\<bar> < 1 / 1000"
  unfolding abs_less_iff by simp

lemma calculate_50_60:
  "calculate (roi 50 60) glt =
     Inr (glt\<lparr>geodetic_length := 15 + sqrt 175, thickness := 30 - (15 + sqrt 175)\<rparr>)"
  by (simp add: calculate_def roi_def double_to_size_t_def)

text \<open>
  What \<^verbatim>\<open>calculate\<close> stores, for a perimeter entry \<open>p\<close> that converts to the unsigned
  integer \<open>L\<close>: every quotient is an integer quotient.
\<close>

lemma calculate_result:
  assumes "fvals r PERIMETER = p # ps" and "double_to_size_t p = Inr L"
  shows "calculate r glt =
           Inr (glt\<lparr>geodetic_length :=
                      real (unat (L div 4))
                        + sqrt (max 0 (real (unat (L * L div 16)) - real (unat (aux_area r)))),
                    thickness :=
                      real (unat (L div 2))
                        - (real (unat (L div 4))
                            + sqrt (max 0 (real (unat (L * L div 16))
                                            - real (unat (aux_area r)))))\<rparr>)"
  using assms by (simp add: calculate_def Let_def max_def)

lemma calculate_sum:
  assumes "calculate r glt = Inr g" and "fvals r PERIMETER = p # ps"
    and "double_to_size_t p = Inr L"
  shows "thickness g + geodetic_length g = real (unat (L div 2))"
  using assms by (auto simp: calculate_def Let_def)

text \<open>
  Where the perimeter is a multiple of four (below \<open>2\<^sup>3\<^sup>2\<close>) no quotient is truncated
  and nothing wraps: the stored values are those of the formula.
\<close>

lemma double_to_size_t_of_nat:
  "n < 2 ^ 64 \<Longrightarrow> double_to_size_t (real n) = Inr (word_of_nat n)"
  by (simp add: double_to_size_t_def)

lemma calculate_multiple_of_four:
  assumes "k < 2 ^ 30" and "fvals r PERIMETER = real (4 * k) # ps"
  shows "calculate r glt =
           Inr (glt\<lparr>geodetic_length :=
                      spec_geodetic_length (real (unat (aux_area r))) (real (4 * k)),
                    thickness :=
                      spec_thickness (real (unat (aux_area r))) (real (4 * k))\<rparr>)"
proof -
  define L :: size_t where "L = word_of_nat (4 * k)"
  have k4: "4 * k < 2 ^ 64" using assms(1) by simp
  have kk: "k * k < 2 ^ 60"
    using assms(1) mult_strict_mono [of k "2 ^ 30" k "2 ^ 30"] by simp
  have conv: "double_to_size_t (real (4 * k)) = Inr L"
    unfolding L_def by (rule double_to_size_t_of_nat [OF k4])
  have uL: "unat L = 4 * k"
    unfolding L_def using k4 by (simp only: unat_of_nat) simp
  have "unat L * unat L < 2 ^ LENGTH(64)"
    using kk by (simp add: uL)
  then have "unat (L * L) = unat L * unat L"
    by (simp only: unat_mult_lem)
  then have sq: "unat (L * L div 16) = k * k"
    by (simp add: unat_div uL)
  have q4: "unat (L div 4) = k" and q2: "unat (L div 2) = 2 * k"
    by (simp_all add: unat_div uL)
  show ?thesis
    unfolding calculate_result [OF assms(2) conv] sq q4 q2
    by (simp add: spec_geodetic_length_def spec_thickness_def spec_radicand_def
        power2_eq_square)
qed

text \<open>
  Claim C1. The claim: for every non-degenerate record, after \<^verbatim>\<open>calculate\<close>,
  thickness + geodetic length equals exactly half of the \<^verbatim>\<open>PERIMETER\<close> entry. The code
  halves the perimeter after its conversion to \<^verbatim>\<open>size_t\<close>, with the integer division. For
  the record with area 101 and perimeter 41 it stores geodetic length 12 and thickness 8,
  whose sum is 20 and not 41/2.
\<close>

theorem calculate_odd_perimeter:
  "calculate (roi 101 41) glt0 = Inr \<lparr>geodetic_length = 12, thickness = 8\<rparr> \<and>
   \<not> has_bad_data (roi 101 41) \<and>
   thickness \<lparr>geodetic_length = 12, thickness = 8\<rparr>
     + geodetic_length \<lparr>geodetic_length = 12, thickness = 8\<rparr>
     \<noteq> hd (fvals (roi 101 41) PERIMETER) / 2"
  by (simp add: calculate_def roi_def double_to_size_t_def glt0_def)

text \<open>
  Claim C2. The claim: \<^verbatim>\<open>calculate\<close> computes \<open>t = L\<^sup>2/16 - A\<close>, clamps it at 0, and produces
  geodetic length \<open>L/4 + sqrt t\<close> and thickness \<open>L/2 -\<close> geodetic length. The code computes
  \<open>L\<^sup>2/16\<close>, \<open>L/4\<close> and \<open>L/2\<close> as integer quotients. For area 110 and perimeter 42 it
  stores geodetic length 10 and thickness 11, where the formula gives 11 and 10.
\<close>

theorem calculate_truncates_quotients:
  "calculate (roi 110 42) glt0 = Inr \<lparr>geodetic_length = 10, thickness = 11\<rparr> \<and>
   spec_geodetic_length 110 42 = 11 \<and> spec_thickness 110 42 = 10"
  by (simp add: calculate_def roi_def double_to_size_t_def glt0_def
      spec_geodetic_length_def spec_thickness_def spec_radicand_def real_sqrt_divide)

text \<open>
  Claim C5. On the record with area 100 and perimeter 40, \<^verbatim>\<open>calculate\<close> yields geodetic
  length 10 and thickness 10 exactly; on the record with area 50 and perimeter 60 it
  yields a geodetic length within 0.001 of 28.2288 and a thickness within 0.001 of 1.7712.
\<close>

theorem calculate_reference_values:
  "calculate (roi 100 40) glt = Inr (glt\<lparr>geodetic_length := 10, thickness := 10\<rparr>) \<and>
   (\<exists>g. calculate (roi 50 60) glt = Inr g \<and>
        \<bar>geodetic_length g - 28.2288\<bar> < 1 / 1000 \<and> \<bar>thickness g - 1.7712\<bar> < 1 / 1000)"
proof -
  have "calculate (roi 100 40) glt = Inr (glt\<lparr>geodetic_length := 10, thickness := 10\<rparr>)"
    by (simp add: calculate_def roi_def double_to_size_t_def)
  moreover have "\<bar>(15 + sqrt 175) - 28.2288\<bar> < 1 / 1000
      \<and> \<bar>(30 - (15 + sqrt 175)) - 1.7712\<bar> < 1 / 1000"
    by (rule within_tolerance [OF sqrt_175_bounds])
  ultimately show ?thesis
    by (simp add: calculate_50_60)
qed

text \<open>
  Claim C9. For every record and every image loader, \<^verbatim>\<open>osized_calculate\<close> leaves the same
  result (the same working state, or the same fault) as \<^verbatim>\<open>calculate\<close> on that record.
\<close>

theorem osized_calculate_eq_calculate:
  "osized_calculate r loader glt = calculate r glt"
  by (simp add: osized_calculate_def)


section \<open>Properties of the texture feature\<close>

subsection \<open>Loops as sums\<close>

lemma fold_add_upt:
  "fold (\<lambda>i (a::real). a + f i) [0..<n] a0 = a0 + (\<Sum>i<n. f i)"
  by (induction n) simp_all

lemma fold_fold_add_upt:
  "fold (\<lambda>i. fold (\<lambda>j (a::real). a + f i j) [0..<m]) [0..<n] a0
     = a0 + (\<Sum>i<n. \<Sum>j<m. f i j)"
  by (induction n) (simp_all add: fold_add_upt)

lemma sum_below_two: "(\<Sum>i<(2::nat). f i) = f 0 + (f 1 :: real)"
  by (simp add: numeral_2_eq_2)

subsection \<open>Loops that may fault\<close>

lemma for_each_append:
  "for_each b (xs @ ys) s =
     (case for_each b xs s of Inl e \<Rightarrow> Inl e | Inr s' \<Rightarrow> for_each b ys s')"
  by (induction xs arbitrary: s) (auto split: sum.splits)

lemma for_each_map: "for_each b (map f xs) = for_each (\<lambda>x. b (f x)) xs"
proof (rule ext)
  fix s show "for_each b (map f xs) s = for_each (\<lambda>x. b (f x)) xs s"
    by (induction xs arbitrary: s) (auto split: sum.splits)
qed

lemma for_each_concat:
  "for_each (\<lambda>x. for_each b (f x)) xs s = for_each b (concat (map f xs)) s"
  by (induction xs arbitrary: s) (auto simp: for_each_append split: sum.splits)

subsection \<open>The neighbourhood of a pixel\<close>

lemma fold_add_neighbour:
  "fold (add_neighbour D) ps (s, n) =
     (s + sum_list (map (\<lambda>q. pixel D (fst q) (snd q))
                       (filter (\<lambda>p. safe D (fst p) (snd p)) ps)),
      n + int (length (filter (\<lambda>p. safe D (fst p) (snd p)) ps)))"
  by (induction ps arbitrary: s n) (auto simp: add_neighbour_def)

text \<open>\<^verbatim>\<open>neigsI\<close> is the sum over the in-bounds neighbours only and \<^verbatim>\<open>nd\<close> is their number.\<close>

lemma neighbourhood_eq:
  "neighbourhood D row col =
     (sum_list (map (\<lambda>q. pixel D (fst q) (snd q)) (in_bounds_neighbours D row col)),
      int (length (in_bounds_neighbours D row col)))"
  by (simp add: neighbourhood_def fold_add_neighbour in_bounds_neighbours_def)

lemma eight_connected_eq:
  "eight_connected row col =
     [(row - 1, col - 1), (row - 1, col), (row - 1, col + 1),
      (row, col - 1), (row, col + 1),
      (row + 1, col - 1), (row + 1, col), (row + 1, col + 1)]"
  by (simp add: eight_connected_def)

lemma spec_neighbours_filter:
  "spec_neighbours D row col =
     filter (\<lambda>p. safe D (fst p) (snd p)) (eight_connected row col)"
  by (simp add: spec_neighbours_def safe_def case_prod_unfold)

text \<open>The positions that the source visits are the in-bounds 8-connected neighbours,
  each once.\<close>

lemma in_bounds_neighbours_mset:
  "mset (in_bounds_neighbours D row col) = mset (spec_neighbours D row col)"
proof -
  have "mset (neighbour_positions row col) = mset (eight_connected row col)"
    by (simp add: neighbour_positions_def eight_connected_eq)
  then show ?thesis
    by (simp only: in_bounds_neighbours_def spec_neighbours_filter mset_filter)
qed

lemma neighbour_count_eq:
  "length (in_bounds_neighbours D row col) = length (spec_neighbours D row col)"
  using in_bounds_neighbours_mset [of D row col] by (metis size_mset)

lemma neighbour_exists:
  assumes "2 \<le> pd_height D * pd_width D"
    and "0 \<le> row" "row < pd_height D" "0 \<le> col" "col < pd_width D"
  shows "in_bounds_neighbours D row col \<noteq> []"
proof -
  have "2 \<le> pd_height D \<or> 2 \<le> pd_width D"
  proof (rule ccontr)
    assume "\<not> ?thesis"
    then have "pd_height D = 1" "pd_width D = 1" using assms by auto
    then show False using assms by simp
  qed
  then have "row + 1 < pd_height D \<or> 0 \<le> row - 1 \<or> col + 1 < pd_width D \<or> 0 \<le> col - 1"
    using assms by linarith
  then have "safe D (row + 1) col \<or> safe D (row - 1) col
      \<or> safe D row (col + 1) \<or> safe D row (col - 1)"
    using assms by (simp add: safe_def)
  then have "\<exists>p\<in>set (neighbour_positions row col). safe D (fst p) (snd p)"
    by (auto simp: neighbour_positions_def)
  then show ?thesis
    by (simp add: in_bounds_neighbours_def filter_empty_conv)
qed

lemma no_neighbour_1x1:
  assumes "pd_height D = 1" "pd_width D = 1"
  shows "in_bounds_neighbours D 0 0 = []"
  using assms by (simp add: in_bounds_neighbours_def neighbour_positions_def safe_def)

subsection \<open>The scan\<close>

lemma gather_zones_flat:
  "gather_zones D = for_each (\<lambda>p. scan_pixel D (fst p) (snd p)) (scan_positions D) ([], [])"
  by (simp add: gather_zones_def scan_positions_def for_each_concat [symmetric] for_each_map)

lemma scan_pixel_cases:
  "scan_pixel D (fst p) (snd p) (Z, U) =
     (if \<not> nonblank D p then Inr (Z, U)
      else if in_bounds_neighbours D (fst p) (snd p) = [] then Inl IntDivByZero
      else Inr (Z @ [zone_of D p], List.insert (pixel D (fst p) (snd p)) U))"
  by (simp add: scan_pixel_def nonblank_def neighbourhood_eq zone_of_def Let_def)

lemma scan_all:
  "for_each (\<lambda>p. scan_pixel D (fst p) (snd p)) ps (Z, U) =
     (if \<forall>p\<in>set ps. nonblank D p \<longrightarrow> in_bounds_neighbours D (fst p) (snd p) \<noteq> []
      then Inr (Z @ map (zone_of D) (filter (nonblank D) ps),
                fold List.insert
                  (map (\<lambda>p. pixel D (fst p) (snd p)) (filter (nonblank D) ps)) U)
      else Inl IntDivByZero)"
proof (induction ps arbitrary: Z U)
  case Nil
  then show ?case by simp
next
  case (Cons p ps)
  show ?case
    by (auto simp: scan_pixel_cases Cons.IH)
qed

text \<open>
  What the scan returns: it faults exactly when some non-blank pixel has no in-bounds
  neighbour; otherwise \<open>Z\<close> holds one pair for each non-blank pixel, in scan order.
\<close>

lemma gather_zones_eq:
  "gather_zones D =
     (if \<forall>p\<in>set (scan_positions D).
           nonblank D p \<longrightarrow> in_bounds_neighbours D (fst p) (snd p) \<noteq> []
      then Inr (map (zone_of D) (filter (nonblank D) (scan_positions D)),
                fold List.insert
                  (map (\<lambda>p. pixel D (fst p) (snd p))
                       (filter (nonblank D) (scan_positions D))) [])
      else Inl IntDivByZero)"
  by (simp add: gather_zones_flat scan_all)

lemma in_grid:
  "(a, b) \<in> set (concat (map (\<lambda>r. map (\<lambda>c. (f r, g c)) ys) xs))
     \<longleftrightarrow> a \<in> f ` set xs \<and> b \<in> g ` set ys"
  by (induction xs) auto

lemma int_image_upt: "a \<in> int ` set [0..<nat h] \<longleftrightarrow> 0 \<le> a \<and> a < h"
proof
  assume "a \<in> int ` set [0..<nat h]"
  then obtain r where "r < nat h" "a = int r" by auto
  then show "0 \<le> a \<and> a < h" by simp
next
  assume "0 \<le> a \<and> a < h"
  then have "a = int (nat a)" "nat a \<in> set [0..<nat h]" by simp_all
  then show "a \<in> int ` set [0..<nat h]" by (rule image_eqI)
qed

lemma scan_positions_mem:
  "(a, b) \<in> set (scan_positions D) \<longleftrightarrow>
     0 \<le> a \<and> a < pd_height D \<and> 0 \<le> b \<and> b < pd_width D"
  unfolding scan_positions_def in_grid int_image_upt by simp

lemma scan_never_divides_by_zero:
  assumes "2 \<le> pd_height D * pd_width D"
  shows "\<forall>p\<in>set (scan_positions D).
           nonblank D p \<longrightarrow> in_bounds_neighbours D (fst p) (snd p) \<noteq> []"
proof (intro ballI impI)
  fix p assume "p \<in> set (scan_positions D)"
  then have "(fst p, snd p) \<in> set (scan_positions D)"
    by simp
  then have "0 \<le> fst p" "fst p < pd_height D" "0 \<le> snd p" "snd p < pd_width D"
    unfolding scan_positions_mem by simp_all
  then show "in_bounds_neighbours D (fst p) (snd p) \<noteq> []"
    by (rule neighbour_exists [OF assms])
qed

subsection \<open>The unique intensities\<close>

lemma set_fold_insert: "set (fold List.insert xs U) = set xs \<union> set U"
  by (induction xs arbitrary: U) auto

lemma distinct_fold_insert: "distinct U \<Longrightarrow> distinct (fold List.insert xs U)"
  by (induction xs arbitrary: U) auto

lemma length_fold_insert: "length (fold List.insert xs []) = card (set xs)"
proof -
  have "distinct (fold List.insert xs [])"
    by (rule distinct_fold_insert) simp
  then have "length (fold List.insert xs []) = card (set (fold List.insert xs []))"
    by (simp add: distinct_card)
  then show ?thesis
    by (simp add: set_fold_insert)
qed

lemma length_unique_intensities:
  "length (fold List.insert
             (map (\<lambda>p. pixel D (fst p) (snd p)) (filter (nonblank D) (scan_positions D))) [])
     = card (observed_intensities D)"
proof -
  have "set (map (\<lambda>p. pixel D (fst p) (snd p)) (filter (nonblank D) (scan_positions D)))
      = observed_intensities D"
    by (auto simp: observed_intensities_def nonblank_def)
  then show ?thesis
    by (simp only: length_fold_insert)
qed

text \<open>On a well-formed plane the scan reads every cell of the vector once, so the
  observed intensities are the non-zero values of the vector.\<close>

lemma rows_concat:
  "h * w \<le> length xs \<Longrightarrow>
   concat (map (\<lambda>r. map (\<lambda>c. xs ! (r * w + c)) [0..<w]) [0..<h]) = take (h * w) xs"
proof (induction h)
  case 0
  then show ?case by simp
next
  case (Suc h)
  then have len: "h * w + w \<le> length xs" by simp
  have "map (\<lambda>c. xs ! (h * w + c)) [0..<w] = take w (drop (h * w) xs)"
    using len by (auto simp: list_eq_iff_nth_eq)
  moreover have "take (h * w + w) xs = take (h * w) xs @ take w (drop (h * w) xs)"
    by (simp add: take_add)
  ultimately show ?case
    using Suc len by (simp add: add.commute)
qed

lemma map_pixel_scan_positions:
  assumes "wf_pixData D"
  shows "map (\<lambda>p. pixel D (fst p) (snd p)) (scan_positions D) = pd_cells D"
proof -
  let ?h = "nat (pd_height D)" and ?w = "nat (pd_width D)"
  have W: "pd_width D = int ?w" and len: "length (pd_cells D) = ?h * ?w"
    using assms by (simp_all add: wf_pixData_def)
  have idx: "nat (int r * pd_width D + int c) = r * ?w + c" for r c
    by (subst W) (simp add: nat_add_distrib nat_mult_distrib)
  have "map (\<lambda>p. pixel D (fst p) (snd p)) (scan_positions D)
      = concat (map (\<lambda>r. map (\<lambda>c. pd_cells D ! (r * ?w + c)) [0..<?w]) [0..<?h])"
    by (simp add: scan_positions_def map_concat comp_def pixel_def idx)
  also have "\<dots> = take (?h * ?w) (pd_cells D)"
    by (rule rows_concat) (simp add: len)
  finally show ?thesis
    by (simp add: len)
qed

lemma observed_intensities_wf:
  "wf_pixData D \<Longrightarrow> observed_intensities D = set (pd_cells D) - {0}"
  by (auto simp: observed_intensities_def map_pixel_scan_positions)

subsection \<open>Filling the arrays\<close>

lemma length_resize: "length (resize n v xs) = n"
  by (simp add: resize_def)

lemma count_zone_keeps:
  "Ng (count_zone I z st) = Ng st" "Ngp (count_zone I z st) = Ngp st"
  "P (count_zone I z st) = P st" "bad_roi_data (count_zone I z st) = bad_roi_data st"
  "length (S (count_zone I z st)) = length (S st)"
  by (simp_all add: count_zone_def Let_def)

lemma fold_count_zone_keeps:
  "Ng (fold (count_zone I) Z st) = Ng st \<and> Ngp (fold (count_zone I) Z st) = Ngp st \<and>
   P (fold (count_zone I) Z st) = P st \<and>
   bad_roi_data (fold (count_zone I) Z st) = bad_roi_data st \<and>
   length (S (fold (count_zone I) Z st)) = length (S st)"
  by (induction Z arbitrary: st) (simp_all add: count_zone_keeps)

lemma fold_update_upt:
  "fold (\<lambda>i p. p[i := q]) [0..<n] xs = replicate (min n (length xs)) q @ drop n xs"
proof (induction n)
  case 0
  then show ?case by simp
next
  case (Suc n)
  show ?case
  proof (cases "n < length xs")
    case True
    then have "(replicate n q @ drop n xs)[n := q] = replicate n q @ (drop n xs)[0 := q]"
      by (simp add: list_update_append)
    also have "(drop n xs)[0 := q] = q # drop (Suc n) xs"
      using True by (metis Cons_nth_drop_Suc list_update_code(2))
    finally show ?thesis
      using True Suc by (simp add: min_def replicate_app_Cons_same)
  next
    case False
    then have "min n (length xs) = length xs" "min (Suc n) (length xs) = length xs"
      by simp_all
    moreover have "(replicate (length xs) q)[n := q] = replicate (length xs) q"
      using False by (simp add: list_update_beyond)
    ultimately show ?thesis
      using False Suc by simp
  qed
qed

lemma fill_loop:
  "for_each (\<lambda>i st'. case ddiv (real_of_int (Ng st')) d of
                          Inl e \<Rightarrow> Inl e
                        | Inr q \<Rightarrow> Inr (st'\<lparr>P := (P st')[i := q]\<rparr>)) [0..<n] st =
     (if 0 < n \<and> d = 0 then Inl NotFinite
      else Inr (st\<lparr>P := fold (\<lambda>i p. p[i := real_of_int (Ng st) / d]) [0..<n] (P st)\<rparr>))"
  by (induction n) (auto simp: for_each_append ddiv_def)

lemma fill_P_eq:
  "fill_P im st =
     (if 0 < Ng st \<and> height im * width im = 0 then Inl NotFinite
      else Inr (st\<lparr>P := replicate (min (nat (Ng st)) (length (P st)))
                          (real_of_int (Ng st) / real_of_int (height im * width im))
                        @ drop (nat (Ng st)) (P st)\<rparr>))"
  unfolding fill_P_def fill_loop fold_update_upt by auto

subsection \<open>\<^verbatim>\<open>initialize\<close> as a whole\<close>

lemma initialize_eq:
  assumes "minI \<noteq> maxI"
  shows "initialize minI maxI im st =
     (case gather_zones (ReadablePixels im) of
        Inl e \<Rightarrow> Inl e
      | Inr ZU \<Rightarrow>
          fill_P im (fold (count_zone (sort (snd ZU))) (fst ZU)
            (st\<lparr>Ng := int (length (snd ZU)), Ngp := int (length (snd ZU)),
                 P := resize (length (snd ZU)) 0 (P st),
                 S := resize (length (snd ZU)) 0 (S st),
                 N := resize (length (snd ZU)) 0 (N st)\<rparr>)))"
  using assms by (simp add: initialize_def Let_def split: sum.splits prod.splits)

lemma initialize_result:
  assumes "minI \<noteq> maxI" and "initialize minI maxI im st = Inr st'"
  shows "Ng st' = int (card (observed_intensities (ReadablePixels im)))"
    and "Ngp st' = Ng st'"
    and "P st' = replicate (nat (Ng st'))
                   (real_of_int (Ng st') / real_of_int (height im * width im))"
    and "arrays_cover st'"
    and "\<not> bad_roi_data st \<Longrightarrow> \<not> bad_roi_data st'"
proof -
  let ?D = "ReadablePixels im"
  let ?U = "fold List.insert
              (map (\<lambda>p. pixel ?D (fst p) (snd p)) (filter (nonblank ?D) (scan_positions ?D))) []"
  let ?Z = "map (zone_of ?D) (filter (nonblank ?D) (scan_positions ?D))"
  let ?st0 = "st\<lparr>Ng := int (length ?U), Ngp := int (length ?U),
                 P := resize (length ?U) 0 (P st),
                 S := resize (length ?U) 0 (S st),
                 N := resize (length ?U) 0 (N st)\<rparr>"
  let ?st3 = "fold (count_zone (sort ?U)) ?Z ?st0"
  have g: "gather_zones ?D = Inr (?Z, ?U)"
    using assms by (auto simp: initialize_eq gather_zones_eq split: if_splits)
  then have f: "fill_P im ?st3 = Inr st'"
    using assms by (simp add: initialize_eq)
  have k: "Ng ?st3 = int (length ?U)" "Ngp ?st3 = int (length ?U)"
      "P ?st3 = resize (length ?U) 0 (P st)" "length (S ?st3) = length ?U"
      "bad_roi_data ?st3 = bad_roi_data st"
    using fold_count_zone_keeps [of "sort ?U" ?Z ?st0] by (simp_all add: length_resize)
  have st': "st' = ?st3\<lparr>P := replicate (length ?U)
                (real_of_int (Ng ?st3) / real_of_int (height im * width im))\<rparr>"
    using f by (simp add: fill_P_eq k length_resize split: if_splits)
  have n: "Ng st' = int (length ?U)" and np: "Ngp st' = int (length ?U)"
    by (subst st', simp add: k)+
  have p: "P st' = replicate (length ?U)
      (real_of_int (int (length ?U)) / real_of_int (height im * width im))"
    by (subst st') (simp add: k)
  have s: "length (S st') = length ?U"
    by (subst st') (simp add: k)
  have b: "bad_roi_data st' = bad_roi_data st"
    by (subst st') (simp add: k)
  show "Ng st' = int (card (observed_intensities ?D))"
    using n by (simp only: length_unique_intensities)
  show "Ngp st' = Ng st'"
    using n np by simp
  show "P st' = replicate (nat (Ng st'))
                  (real_of_int (Ng st') / real_of_int (height im * width im))"
    using n p by simp
  show "arrays_cover st'"
    using n p s by (simp add: arrays_cover_def)
  show "\<not> bad_roi_data st \<Longrightarrow> \<not> bad_roi_data st'"
    using b by simp
qed

lemma initialize_returns:
  assumes "minI \<noteq> maxI"
    and "2 \<le> pd_height (ReadablePixels im) * pd_width (ReadablePixels im)"
    and "height im * width im \<noteq> 0"
  shows "\<exists>st'. initialize minI maxI im st = Inr st'"
  using assms scan_never_divides_by_zero [OF assms(2)]
  by (simp add: initialize_eq gather_zones_eq fill_P_eq)

lemma initialize_im22: "initialize 1 2 im22 ngtdm0 = Inr ngtdm22"
  by code_simp

subsection \<open>The claims about \<^verbatim>\<open>initialize\<close>\<close>

text \<open>
  Claim C4. The claim: for every non-background pixel \<^verbatim>\<open>initialize\<close> records the pair of
  the pixel's intensity and the average of the intensities of exactly its in-bounds
  8-connected neighbours, the divisor being their number. The code does sum the in-bounds
  neighbours only and divides by their number (\<open>neighbourhood_eq\<close>,
  \<open>in_bounds_neighbours_mset\<close>), but it accumulates and divides in the integer type
  \<^verbatim>\<open>PixIntens\<close>, so the recorded value is the truncated quotient (\<open>gather_zones_eq\<close>,
  \<open>zone_of\<close>). On the image with rows \<open>1 1\<close> and \<open>1 2\<close> the pixel at (0, 0) has the
  neighbours 1, 2, 1, whose average is 4/3; the pair recorded for it is (1, 1).
\<close>

theorem gather_zones_truncated_average:
  "gather_zones (ReadablePixels im22) = Inr ([(1, 1), (1, 1), (1, 1), (2, 1)], [2, 1]) \<and>
   spec_neighbourhood_average (ReadablePixels im22) 0 0 = 4 / 3"
proof -
  have "gather_zones (ReadablePixels im22) = Inr ([(1, 1), (1, 1), (1, 1), (2, 1)], [2, 1])"
    by code_simp
  moreover have "spec_neighbourhood_average (ReadablePixels im22) 0 0 = 4 / 3"
    by (simp add: spec_neighbourhood_average_def spec_neighbours_def eight_connected_eq
        im22_def pixel_def)
  ultimately show ?thesis by simp
qed

text \<open>
  Claim C8. After \<^verbatim>\<open>initialize\<close> on a non-degenerate matrix (\<open>minI \<noteq> maxI\<close>), \<open>Ng\<close> is the
  number of distinct non-zero intensities observed, \<open>P\<close> has \<open>Ng\<close> entries, and every
  entry of \<open>P\<close> is \<open>Ng\<close> divided by image height times image width. \<^verbatim>\<open>initialize\<close> does
  return when the plane has at least two cells and the image has a non-zero cell count.
\<close>

theorem initialize_P_uniform:
  assumes "minI \<noteq> maxI"
  shows "(\<forall>st'. initialize minI maxI im st = Inr st' \<longrightarrow>
            Ng st' = int (card (observed_intensities (ReadablePixels im))) \<and>
            length (P st') = nat (Ng st') \<and>
            (\<forall>i<length (P st').
               P st' ! i = real_of_int (Ng st') / real_of_int (height im * width im))) \<and>
         (2 \<le> pd_height (ReadablePixels im) * pd_width (ReadablePixels im) \<and>
          height im * width im \<noteq> 0 \<longrightarrow>
            (\<exists>st'. initialize minI maxI im st = Inr st'))"
proof (intro conjI allI impI)
  fix st' assume r: "initialize minI maxI im st = Inr st'"
  show "Ng st' = int (card (observed_intensities (ReadablePixels im)))"
    by (rule initialize_result(1) [OF assms r])
  show "length (P st') = nat (Ng st')"
    by (subst initialize_result(3) [OF assms r]) simp
  fix i assume "i < length (P st')"
  then show "P st' ! i = real_of_int (Ng st') / real_of_int (height im * width im)"
    by (subst (asm) initialize_result(3) [OF assms r],
        subst initialize_result(3) [OF assms r]) simp
next
  assume "2 \<le> pd_height (ReadablePixels im) * pd_width (ReadablePixels im) \<and>
          height im * width im \<noteq> 0"
  then show "\<exists>st'. initialize minI maxI im st = Inr st'"
    using initialize_returns [OF assms] by blast
qed

theorem initialize_P_uniform_witness:
  "(1::int) \<noteq> 2 \<and> initialize 1 2 im22 ngtdm0 = Inr ngtdm22 \<and>
   Ng ngtdm22 = int (card (observed_intensities (ReadablePixels im22))) \<and>
   length (P ngtdm22) = nat (Ng ngtdm22) \<and>
   P ngtdm22 ! 0 = real_of_int (Ng ngtdm22) / real_of_int (height im22 * width im22) \<and>
   P ngtdm22 ! 1 = real_of_int (Ng ngtdm22) / real_of_int (height im22 * width im22) \<and>
   2 \<le> pd_height (ReadablePixels im22) * pd_width (ReadablePixels im22) \<and>
   height im22 * width im22 \<noteq> 0"
proof -
  have l: "(0::nat) < length (P ngtdm22)" "(1::nat) < length (P ngtdm22)"
    by (simp_all add: ngtdm22_def)
  have d: "2 \<le> pd_height (ReadablePixels im22) * pd_width (ReadablePixels im22)"
      "height im22 * width im22 \<noteq> 0"
    by (simp_all add: im22_def)
  show ?thesis
    using initialize_P_uniform [of 1 2 im22 ngtdm0] initialize_im22 l d by simp
qed

text \<open>
  Claim C10. When the pixel matrix has at least two cells, every position of the matrix
  has at least one in-bounds 8-connected neighbour, so the divisor \<^verbatim>\<open>nd\<close> is at least 1 and
  the scan never divides by zero; in a 1 by 1 matrix with a non-zero pixel \<^verbatim>\<open>nd\<close> is 0 and
  the division by zero is reached.
\<close>

theorem neighbourhood_divisor_positive:
  "(2 \<le> pd_height D * pd_width D \<and>
    0 \<le> row \<and> row < pd_height D \<and> 0 \<le> col \<and> col < pd_width D
      \<longrightarrow> 1 \<le> snd (neighbourhood D row col)) \<and>
   (2 \<le> pd_height D * pd_width D \<longrightarrow> (\<exists>ZU. gather_zones D = Inr ZU)) \<and>
   (pd_height D = 1 \<and> pd_width D = 1 \<and> pixel D 0 0 \<noteq> 0
      \<longrightarrow> snd (neighbourhood D 0 0) = 0 \<and> gather_zones D = Inl IntDivByZero)"
proof (intro conjI impI)
  assume "2 \<le> pd_height D * pd_width D \<and>
    0 \<le> row \<and> row < pd_height D \<and> 0 \<le> col \<and> col < pd_width D"
  then have "in_bounds_neighbours D row col \<noteq> []"
    using neighbour_exists by blast
  then show "1 \<le> snd (neighbourhood D row col)"
    by (cases "in_bounds_neighbours D row col") (simp_all add: neighbourhood_eq)
next
  assume "2 \<le> pd_height D * pd_width D"
  then show "\<exists>ZU. gather_zones D = Inr ZU"
    using scan_never_divides_by_zero by (simp add: gather_zones_eq)
next
  assume a: "pd_height D = 1 \<and> pd_width D = 1 \<and> pixel D 0 0 \<noteq> 0"
  then have e: "in_bounds_neighbours D 0 0 = []"
    by (simp add: no_neighbour_1x1)
  then show "snd (neighbourhood D 0 0) = 0"
    by (simp add: neighbourhood_eq)
  have "scan_positions D = [(0, 0)]"
    using a by (simp add: scan_positions_def)
  then show "gather_zones D = Inl IntDivByZero"
    using a e by (simp add: gather_zones_eq nonblank_def)
qed

theorem neighbourhood_divisor_positive_witness:
  "2 \<le> pd_height (ReadablePixels im22) * pd_width (ReadablePixels im22) \<and>
   (0::int) \<le> 1 \<and> 1 < pd_height (ReadablePixels im22) \<and> 1 < pd_width (ReadablePixels im22) \<and>
   1 \<le> snd (neighbourhood (ReadablePixels im22) 1 1) \<and>
   (\<exists>ZU. gather_zones (ReadablePixels im22) = Inr ZU) \<and>
   pd_height (ReadablePixels im11) = 1 \<and> pd_width (ReadablePixels im11) = 1 \<and>
   pixel (ReadablePixels im11) 0 0 \<noteq> 0 \<and>
   snd (neighbourhood (ReadablePixels im11) 0 0) = 0 \<and>
   gather_zones (ReadablePixels im11) = Inl IntDivByZero"
proof -
  have a: "2 \<le> pd_height (ReadablePixels im22) * pd_width (ReadablePixels im22)"
      "1 < pd_height (ReadablePixels im22)" "1 < pd_width (ReadablePixels im22)"
    by (simp_all add: im22_def)
  have b: "pd_height (ReadablePixels im11) = 1" "pd_width (ReadablePixels im11) = 1"
      "pixel (ReadablePixels im11) 0 0 \<noteq> 0"
    by (simp_all add: im11_def pixel_def)
  show ?thesis
    using neighbourhood_divisor_positive [of "ReadablePixels im22" 1 1]
      neighbourhood_divisor_positive [of "ReadablePixels im11"] a b
    by simp
qed

subsection \<open>The derived scalars\<close>

text \<open>
  Claim C3. When \<^verbatim>\<open>initialize\<close> is called with \<open>minI = maxI\<close> it returns with the bad-data
  flag set, and each of the five derived scalars then returns exactly 0.
\<close>

theorem initialize_degenerate_scalars_zero:
  "minI = maxI \<Longrightarrow>
     \<exists>st'. initialize minI maxI im st = Inr st' \<and> bad_roi_data st' \<and>
       calc_Coarseness st' = Inr 0 \<and> calc_Contrast st' = Inr 0 \<and>
       calc_Busyness st' = Inr 0 \<and> calc_Complexity st' = Inr 0 \<and>
       calc_Strength st' = Inr 0"
  by (simp add: initialize_def calc_Coarseness_def calc_Contrast_def calc_Busyness_def
      calc_Complexity_def calc_Strength_def BAD_ROI_FVAL_def)

theorem initialize_degenerate_scalars_zero_witness:
  "(7::int) = 7 \<and>
   (\<exists>st'. initialize 7 7 im22 ngtdm0 = Inr st' \<and> bad_roi_data st' \<and>
       calc_Coarseness st' = Inr 0 \<and> calc_Contrast st' = Inr 0 \<and>
       calc_Busyness st' = Inr 0 \<and> calc_Complexity st' = Inr 0 \<and>
       calc_Strength st' = Inr 0)"
  using initialize_degenerate_scalars_zero [of 7 7 im22 ngtdm0] by simp

text \<open>
  Claim C6. \<^verbatim>\<open>calc_Busyness\<close> returns exactly 0 whenever \<open>Ngp = 1\<close>, whatever \<open>S\<close> and
  \<open>P\<close> hold. Otherwise, for data not marked bad (and vectors that hold \<open>Ng\<close> elements),
  it returns the sum of \<open>P[i] S[i]\<close> divided by the double sum of \<open>|P[i] i - P[j] j|\<close>,
  the indices running from 0 below \<open>Ng\<close>; the division is the one of doubles, which does
  not yield a number when the divisor is 0.
\<close>

theorem calc_Busyness_formula:
  "(Ngp st = 1 \<longrightarrow> calc_Busyness st = Inr 0) \<and>
   (Ngp st \<noteq> 1 \<and> \<not> bad_roi_data st \<and> arrays_cover st \<longrightarrow>
    calc_Busyness st =
      ddiv (\<Sum>i<nat (Ng st). P st ! i * S st ! i)
           (\<Sum>i<nat (Ng st). \<Sum>j<nat (Ng st). \<bar>P st ! i * real i - P st ! j * real j\<bar>))"
  by (simp add: calc_Busyness_def BAD_ROI_FVAL_def fold_add_upt fold_fold_add_upt)

theorem calc_Busyness_formula_witness:
  "Ngp ngtdm_single = 1 \<and> calc_Busyness ngtdm_single = Inr 0 \<and>
   Ngp ngtdm22 \<noteq> 1 \<and> \<not> bad_roi_data ngtdm22 \<and> arrays_cover ngtdm22 \<and>
   calc_Busyness ngtdm22 = Inr (1 / 2)"
  using calc_Busyness_formula [of ngtdm_single] calc_Busyness_formula [of ngtdm22]
  by (simp add: ngtdm_single_def ngtdm22_def arrays_cover_def sum_below_two ddiv_def)




end
